theory Spec2Isabelle
  imports Complex_Main "HOL-Library.Log_Nat"
begin

section \<open>The VQE tutorial notebook: data model\<close>

text \<open>
  The notebook builds quantum circuits through a circuit library, measures Pauli strings
  on a simulator backend and hands an objective function to a numerical minimizer.
  The library objects are modelled by what the notebook's code observes of them:
  \<^item> a register by its size (the library's generated names play no role here);
  \<^item> a circuit by its two register lists and its instruction list; with exactly one
    quantum and one classical register, a bit is addressed by its index;
  \<^item> circuits are mutable objects: they live in a heap and are passed by reference,
    \<open>copy\<close> allocates a new object, a gate call appends to the object referenced;
  \<^item> the simulator backend and the minimizer are parameters of the model. The
    backend maps a circuit and a shot count to an error or to the counts dictionary
    (bitstring, count) that one execution returned;
  \<^item> Python ints are integers. A Python float is an IEEE double: the arithmetic that
    \<open>expectation\<close> does on floats rounds to the nearest double, ties to even, and
    overflows to an infinity. The floats that the code only passes on (angles,
    coefficients, radii, the minimizer's results) are modelled by reals;
  \<^item> text written by \<open>print\<close> is not modelled;
  \<^item> Pauli strings are ASCII text.
\<close>

type_synonym ref = nat

record register =
  reg_size :: nat

datatype instr =
    XGate nat
  | RXGate real nat
  | RYGate real nat
  | RZGate real nat
  | CXGate nat nat
  | HGate nat
  | SGate nat
  | Measure nat nat

record circuit =
  qregs :: "register list"
  cregs :: "register list"
  data :: "instr list"

type_synonym counts = "(string \<times> int) list"

record world =
  heap :: "circuit list"
  jobs :: "(circuit \<times> int) list"

datatype error =
    ValueError string
  | IndexError string
  | ZeroDivisionError string
  | OverflowError string
  | TypeError string
  | BackendError string

text \<open>
  The value of a float: a real number, or one of the two infinities. (No operation of
  the notebook's code produces a NaN; the two zeros are not told apart.)
\<close>

datatype double = Finite real | PlusInf | MinusInf

datatype py_num = PyInt int | PyFloat double

fun num_val :: "py_num \<Rightarrow> double" where
  "num_val (PyInt i) = Finite (real_of_int i)"
| "num_val (PyFloat d) = d"

type_synonym backend = "circuit \<Rightarrow> int \<Rightarrow> error + counts"

subsection \<open>Double precision arithmetic\<close>

text \<open>\<open>pow2 e\<close> is 2 to the power \<open>e\<close>, for an integer \<open>e\<close> of either sign.\<close>

definition pow2 :: "int \<Rightarrow> real" where
  "pow2 e = (if 0 \<le> e then 2 ^ nat e else 1 / 2 ^ nat (- e))"

text \<open>
  The binary exponent of a non-zero real \<open>x\<close>: the integer \<open>e\<close> with
  \<open>2^e \<le> |x| < 2^(e+1)\<close> (lemma \<open>binade_bounds\<close>), computed from the bit length of
  the integer part of \<open>|x|\<close>, or of \<open>1/|x|\<close> rounded up, less one.
\<close>

definition binade :: "real \<Rightarrow> int" where
  "binade x =
     (if 1 \<le> \<bar>x\<bar> then bitlen \<lfloor>\<bar>x\<bar>\<rfloor> - 1 else - bitlen (\<lceil>1 / \<bar>x\<bar>\<rceil> - 1))"

text \<open>Rounding to the nearest integer, a tie going to the even one.\<close>

definition round_half_even :: "real \<Rightarrow> int" where
  "round_half_even y =
     (let f = \<lfloor>y\<rfloor>; d = y - real_of_int f
      in if d < 1 / 2 then f else if 1 / 2 < d then f + 1 else if even f then f else f + 1)"

text \<open>
  Rounding a real to 53 significant bits, with the exponent bounded below as for a double
  (the spacing never goes under \<open>2^-1074\<close>, which gives the subnormal numbers) and not
  bounded above: each operation compares the rounded value with \<open>2^1024\<close> itself.
\<close>

definition round_double :: "real \<Rightarrow> real" where
  "round_double x =
     (if x = 0 then 0
      else let q = pow2 (max (binade x) (- 1022) - 52)
           in real_of_int (round_half_even (x / q)) * q)"

text \<open>
  An int that meets a float is converted to a float first: the conversion rounds, and
  raises \<open>OverflowError\<close> when the rounded value is outside the range of a double.
\<close>

definition double_of_int :: "int \<Rightarrow> error + real" where
  "double_of_int n =
     (let r = round_double (real_of_int n)
      in if 2 ^ 1024 \<le> \<bar>r\<bar> then Inl (OverflowError ''int too large to convert to float'')
         else Inr r)"

text \<open>The rounded result of an operation; beyond the range it is an infinity.\<close>

definition double_result :: "real \<Rightarrow> double" where
  "double_result x =
     (let r = round_double x
      in if 2 ^ 1024 \<le> r then PlusInf else if r \<le> - (2 ^ 1024) then MinusInf else Finite r)"

text \<open>
  Float addition and division; the second operand is a finite double, and not zero in
  the division.
\<close>

fun double_add :: "double \<Rightarrow> real \<Rightarrow> double" where
  "double_add (Finite x) y = double_result (x + y)"
| "double_add PlusInf y = PlusInf"
| "double_add MinusInf y = MinusInf"

fun double_div :: "double \<Rightarrow> real \<Rightarrow> double" where
  "double_div (Finite x) y = double_result (x / y)"
| "double_div PlusInf y = (if 0 < y then PlusInf else MinusInf)"
| "double_div MinusInf y = (if 0 < y then MinusInf else PlusInf)"

subsection \<open>Strings\<close>

text \<open>\<open>str(n)\<close> for a non-negative integer, as the f-strings of the error messages print it.\<close>

fun str_nat :: "nat \<Rightarrow> string" where
  "str_nat n = (if n < 10 then [''0123456789'' ! n]
                else str_nat (n div 10) @ [''0123456789'' ! (n mod 10)])"

declare str_nat.simps [simp del]

text \<open>\<open>str.upper\<close> and \<open>str.strip\<close> on ASCII text.\<close>

definition upper_char :: "char \<Rightarrow> char" where
  "upper_char c =
     (case map_of (zip ''abcdefghijklmnopqrstuvwxyz'' ''ABCDEFGHIJKLMNOPQRSTUVWXYZ'') c of
        Some u \<Rightarrow> u
      | None \<Rightarrow> c)"

definition upper :: "string \<Rightarrow> string" where
  "upper s = map upper_char s"

definition isspace :: "char \<Rightarrow> bool" where
  "isspace c = ((of_char c :: nat) \<in> set [9, 10, 11, 12, 13, 28, 29, 30, 31, 32])"

definition strip :: "string \<Rightarrow> string" where
  "strip s = rev (dropWhile isspace (rev (dropWhile isspace s)))"

subsection \<open>Circuit objects\<close>

text \<open>\<open>QuantumCircuit(qreg, creg)\<close> allocates an empty circuit.\<close>

definition QuantumCircuit :: "register \<Rightarrow> register \<Rightarrow> world \<Rightarrow> ref \<times> world" where
  "QuantumCircuit qreg creg w =
     (length (heap w),
      w\<lparr>heap := heap w @ [\<lparr>qregs = [qreg], cregs = [creg], data = []\<rparr>]\<rparr>)"

text \<open>\<open>circuit.copy()\<close> allocates a new object with the same contents.\<close>

definition circuit_copy :: "ref \<Rightarrow> world \<Rightarrow> ref \<times> world" where
  "circuit_copy c w = (length (heap w), w\<lparr>heap := heap w @ [heap w ! c]\<rparr>)"

text \<open>A gate or measure call appends one instruction to the object referenced.\<close>

definition append_instr :: "ref \<Rightarrow> instr \<Rightarrow> world \<Rightarrow> world" where
  "append_instr c g w =
     w\<lparr>heap := (heap w)[c := (heap w ! c)\<lparr>data := data (heap w ! c) @ [g]\<rparr>]\<rparr>"

text \<open>\<open>reg[i]\<close>: the library raises its index error outside the register.\<close>

definition reg_index :: "register \<Rightarrow> nat \<Rightarrow> error + nat" where
  "reg_index reg i =
     (if i < reg_size reg then Inr i else Inl (IndexError ''register index out of range''))"

section \<open>The ansatz circuit\<close>

definition VQE_circuit :: "real \<Rightarrow> world \<Rightarrow> ref \<times> world" where
  "VQE_circuit theta w =
     (let qreg = \<lparr>reg_size = 2\<rparr>;
          creg = \<lparr>reg_size = 2\<rparr>;
          (circ, w) = QuantumCircuit qreg creg w;
          w = append_instr circ (XGate 0) w;
          w = append_instr circ (RXGate (- pi / 2) 0) w;
          w = append_instr circ (RYGate (pi / 2) 1) w;
          w = append_instr circ (CXGate 1 0) w;
          w = append_instr circ (RZGate theta 0) w;
          w = append_instr circ (CXGate 1 0) w;
          w = append_instr circ (RXGate (pi / 2) 0) w;
          w = append_instr circ (RYGate (- pi / 2) 1) w
      in (circ, w))"

section \<open>Pauli expectation estimation\<close>

text \<open>
  The loop over \<open>enumerate(pauli_string)\<close>. \<open>temp\<close> is the reference of the copy,
  \<open>ident\<close> the list of flags built so far. An exception leaves the loop with the
  instructions appended so far still in \<open>temp\<close>.
\<close>

fun measure_loop ::
  "ref \<Rightarrow> register \<Rightarrow> register \<Rightarrow> nat \<Rightarrow> string \<Rightarrow> int list \<Rightarrow> world
     \<Rightarrow> (error + int list) \<times> world" where
  "measure_loop temp qreg creg qubit [] ident w = (Inr ident, w)"
| "measure_loop temp qreg creg qubit (pauli # rest) ident w =
     (if pauli = CHR ''I'' then
        measure_loop temp qreg creg (Suc qubit) rest (ident @ [1]) w
      else if pauli = CHR ''X'' then
        (case reg_index qreg qubit of Inl e \<Rightarrow> (Inl e, w) | Inr q \<Rightarrow>
           let w1 = append_instr temp (HGate q) w in
           (case reg_index qreg qubit of Inl e \<Rightarrow> (Inl e, w1) | Inr q' \<Rightarrow>
              (case reg_index creg qubit of Inl e \<Rightarrow> (Inl e, w1) | Inr c \<Rightarrow>
                 measure_loop temp qreg creg (Suc qubit) rest (ident @ [0])
                   (append_instr temp (Measure q' c) w1))))
      else if pauli = CHR ''Y'' then
        (case reg_index qreg qubit of Inl e \<Rightarrow> (Inl e, w) | Inr q \<Rightarrow>
           let w1 = append_instr temp (SGate q) w in
           (case reg_index qreg qubit of Inl e \<Rightarrow> (Inl e, w1) | Inr q' \<Rightarrow>
              let w2 = append_instr temp (HGate q') w1 in
              (case reg_index qreg qubit of Inl e \<Rightarrow> (Inl e, w2) | Inr q'' \<Rightarrow>
                 (case reg_index creg qubit of Inl e \<Rightarrow> (Inl e, w2) | Inr c \<Rightarrow>
                    measure_loop temp qreg creg (Suc qubit) rest (ident @ [0])
                      (append_instr temp (Measure q'' c) w2)))))
      else if pauli = CHR ''Z'' then
        (case reg_index qreg qubit of Inl e \<Rightarrow> (Inl e, w) | Inr q \<Rightarrow>
           (case reg_index creg qubit of Inl e \<Rightarrow> (Inl e, w) | Inr c \<Rightarrow>
              measure_loop temp qreg creg (Suc qubit) rest (ident @ [0])
                (append_instr temp (Measure q c) w)))
      else
        (Inl (ValueError (pauli # '' is an invalid Pauli string key. Should be I, X, Y, or Z.'')),
         w))"

text \<open>\<open>all(ident)\<close>: every element is truthy, that is, non-zero.\<close>

definition py_all :: "int list \<Rightarrow> bool" where
  "py_all xs = list_all (\<lambda>x. x \<noteq> 0) xs"

text \<open>\<open>(-1) ** bitstring.count("0")\<close>.\<close>

definition sign :: "string \<Rightarrow> int" where
  "sign bitstring = (- 1) ^ length (filter (\<lambda>c. c = CHR ''0'') bitstring)"

text \<open>
  The postprocessing loop over \<open>counts.items()\<close>, from \<open>val = 0.0\<close>. The product
  \<open>sign * count\<close> is an int; \<open>val += sign * count\<close> converts it and adds two floats.
\<close>

fun postprocess :: "counts \<Rightarrow> double \<Rightarrow> error + double" where
  "postprocess [] val = Inr val"
| "postprocess ((bitstring, count) # rest) val =
     (case double_of_int (sign bitstring * count) of
        Inl e \<Rightarrow> Inl e
      | Inr x \<Rightarrow> postprocess rest (double_add val x))"

definition expectation ::
  "backend \<Rightarrow> ref \<Rightarrow> string \<Rightarrow> int \<Rightarrow> world \<Rightarrow> (error + py_num) \<times> world" where
  "expectation backend circuit pauli_string shots w0 =
     (let (temp, w1) = circuit_copy circuit w0;
          circ = heap w1 ! circuit
      in if length (qregs circ) \<noteq> 1 then
           (Inl (ValueError ''Circuit should have only one quantum register.''), w1)
         else if length (cregs circ) \<noteq> 1 then
           (Inl (ValueError ''Circuit should have only one classical register.''), w1)
         else
           let qreg = qregs circ ! 0;
               creg = cregs circ ! 0;
               nqubits = reg_size qreg;
               pauli_string = strip (upper pauli_string)
           in if length pauli_string \<noteq> nqubits then
                (Inl (ValueError (''Circuit has '' @ str_nat nqubits
                        @ '' qubits but pauli_string has '' @ str_nat (length pauli_string)
                        @ '' operators.'')), w1)
              else
                (case measure_loop temp qreg creg 0 pauli_string [] w1 of
                   (Inl e, w2) \<Rightarrow> (Inl e, w2)
                 | (Inr ident, w2) \<Rightarrow>
                     if py_all ident then (Inr (PyInt 1), w2)
                     else
                       let w3 = w2\<lparr>jobs := jobs w2 @ [(heap w2 ! temp, shots)]\<rparr>
                       in (case backend (heap w2 ! temp) shots of
                             Inl e \<Rightarrow> (Inl e, w3)
                           | Inr counts \<Rightarrow>
                               (case postprocess counts (Finite 0) of
                                  Inl e \<Rightarrow> (Inl e, w3)
                                | Inr val \<Rightarrow>
                                    (case double_of_int shots of
                                       Inl e \<Rightarrow> (Inl e, w3)
                                     | Inr d \<Rightarrow>
                                         if d = 0 then
                                           (Inl (ZeroDivisionError ''float division by zero''),
                                            w3)
                                         else (Inr (PyFloat (double_div val d)), w3))))))"

section \<open>Hamiltonian cost\<close>

text \<open>
  The body of \<open>cost\<close> ends after the length check: with lists of equal length the
  function falls off its end and returns \<open>None\<close>. The result type has \<open>None\<close> for that.
\<close>

definition cost ::
  "ref \<Rightarrow> real list \<Rightarrow> string list \<Rightarrow> world \<Rightarrow> (error + py_num option) \<times> world" where
  "cost circuit weights paulis w =
     (if length weights \<noteq> length paulis then
        (Inl (ValueError ''Args weights and paulis must have the same length.''), w)
      else (Inr None, w))"

section \<open>Objective functions and the sweep over bond lengths\<close>

record opt_result =
  opt_fun :: real
  opt_x :: "real list"

type_synonym objective = "real \<Rightarrow> world \<Rightarrow> (error + py_num option) \<times> world"

type_synonym minimizer =
  "objective \<Rightarrow> real list \<Rightarrow> string \<Rightarrow> world \<Rightarrow> (error + opt_result) \<times> world"

text \<open>
  The function \<open>obj\<close> of the single-radius cell. The globals \<open>weights\<close> and
  \<open>H2_paulis\<close> are left to the reader of the notebook and are parameters here.
\<close>

definition obj :: "real list \<Rightarrow> string list \<Rightarrow> objective" where
  "obj weights H2_paulis theta w =
     (let (circ, w1) = VQE_circuit 0 w
      in cost circ weights H2_paulis w1)"

definition result :: "minimizer \<Rightarrow> real list \<Rightarrow> string list \<Rightarrow> world
                        \<Rightarrow> (error + opt_result) \<times> world" where
  "result minimize weights H2_paulis w = minimize (obj weights H2_paulis) [0] ''Powell'' w"

text \<open>
  The objective of the sweep, \<open>lambda theta: cost(VQE_circuit(theta), coeffs[r], H2_paulis)\<close>.
  The arguments are evaluated from left to right, so the circuit is built before
  \<open>coeffs[r]\<close> is read.
\<close>

definition sweep_obj :: "real list list \<Rightarrow> string list \<Rightarrow> nat \<Rightarrow> objective" where
  "sweep_obj coeffs H2_paulis r theta w =
     (let (circ, w1) = VQE_circuit theta w
      in if r < length coeffs then cost circ (coeffs ! r) H2_paulis w1
         else (Inl (IndexError (''index '' @ str_nat r
                 @ '' is out of bounds for axis 0 with size '' @ str_nat (length coeffs))), w1))"

text \<open>
  The loop \<open>for r in range(len(radii))\<close>, with the list \<open>energies\<close> built so far.
  An exception of the minimizer ends the loop.
\<close>

fun sweep_loop ::
  "minimizer \<Rightarrow> real list list \<Rightarrow> string list \<Rightarrow> nat list \<Rightarrow> real list \<Rightarrow> world
     \<Rightarrow> (error + real list) \<times> world" where
  "sweep_loop minimize coeffs H2_paulis [] energies w = (Inr energies, w)"
| "sweep_loop minimize coeffs H2_paulis (r # rs) energies w =
     (case minimize (sweep_obj coeffs H2_paulis r) [0] ''Powell'' w of
        (Inl e, w') \<Rightarrow> (Inl e, w')
      | (Inr opt, w') \<Rightarrow>
          sweep_loop minimize coeffs H2_paulis rs (energies @ [opt_fun opt]) w')"

definition sweep ::
  "minimizer \<Rightarrow> real list \<Rightarrow> real list list \<Rightarrow> string list \<Rightarrow> world
     \<Rightarrow> (error + real list) \<times> world" where
  "sweep minimize radii coeffs H2_paulis w =
     sweep_loop minimize coeffs H2_paulis [0..<length radii] [] w"

section \<open>Auxiliary definitions for the statements\<close>

text \<open>Counts that are non-negative and sum to the shot count.\<close>

definition valid_counts :: "counts \<Rightarrow> int \<Rightarrow> bool" where
  "valid_counts cs shots =
     (list_all (\<lambda>(bitstring, n). 0 \<le> n) cs \<and> sum_list (map snd cs) = shots)"

text \<open>A returned number lies in the closed interval from -1 to 1.\<close>

definition in_unit_interval :: "py_num \<Rightarrow> bool" where
  "in_unit_interval v =
     (case num_val v of
        Finite r \<Rightarrow> - 1 \<le> r \<and> r \<le> 1
      | PlusInf \<Rightarrow> False
      | MinusInf \<Rightarrow> False)"

text \<open>
  What the sweep needs of the minimizer, whatever its method: it works from values of
  the objective, so on an objective that yields a number at no point and in no state
  (it raises, or returns \<open>None\<close>) it ends with an exception.
\<close>

definition needs_objective_value :: "minimizer \<Rightarrow> bool" where
  "needs_objective_value minimize =
     (\<forall>f. (\<forall>theta w v. fst (f theta w) \<noteq> Inr (Some v))
          \<longrightarrow> (\<forall>x0 method w. \<exists>e. fst (minimize f x0 method w) = Inl e))"

text \<open>
  The estimator as the specification words it: the average over the shots of the
  outcomes' signs, the sign of an outcome being the parity of its bits at the measured
  (non-identity) positions. The backend prints classical bit 0 last, so qubit \<open>q\<close> is
  read at position \<open>q\<close> of the reversed bitstring.
\<close>

definition measured_ones :: "string \<Rightarrow> string \<Rightarrow> nat" where
  "measured_ones pauli_string bitstring =
     length (filter (\<lambda>(p, b). p \<noteq> CHR ''I'' \<and> b = CHR ''1'')
               (zip pauli_string (rev bitstring)))"

definition parity_sign :: "string \<Rightarrow> string \<Rightarrow> int" where
  "parity_sign pauli_string bitstring = (- 1) ^ measured_ones pauli_string bitstring"

definition parity_average :: "string \<Rightarrow> counts \<Rightarrow> int \<Rightarrow> real" where
  "parity_average pauli_string cs shots =
     real_of_int (sum_list (map (\<lambda>(bitstring, n). parity_sign pauli_string bitstring * n) cs))
       / real_of_int shots"

text \<open>
  Concrete inputs for the examples: states that hold one circuit without gates on one,
  two and three qubits (as many classical bits), a backend that answers every job with
  the same counts, and a minimizer that evaluates the objective once, at the initial
  guess, and reports that value; it raises \<open>TypeError\<close> when the objective returns
  \<open>None\<close>, as comparing or subtracting two such values does.
\<close>

definition empty_world :: world where
  "empty_world = \<lparr>heap = [], jobs = []\<rparr>"

definition one_qubit_world :: world where
  "one_qubit_world =
     \<lparr>heap = [\<lparr>qregs = [\<lparr>reg_size = 1\<rparr>], cregs = [\<lparr>reg_size = 1\<rparr>], data = []\<rparr>], jobs = []\<rparr>"

definition two_qubit_world :: world where
  "two_qubit_world =
     \<lparr>heap = [\<lparr>qregs = [\<lparr>reg_size = 2\<rparr>], cregs = [\<lparr>reg_size = 2\<rparr>], data = []\<rparr>], jobs = []\<rparr>"

definition three_qubit_world :: world where
  "three_qubit_world =
     \<lparr>heap = [\<lparr>qregs = [\<lparr>reg_size = 3\<rparr>], cregs = [\<lparr>reg_size = 3\<rparr>], data = []\<rparr>], jobs = []\<rparr>"

definition fixed_backend :: "counts \<Rightarrow> backend" where
  "fixed_backend cs = (\<lambda>circ shots. Inr cs)"

definition probing_minimizer :: minimizer where
  "probing_minimizer f x0 method w =
     (case f (hd x0) w of
        (Inl e, w') \<Rightarrow> (Inl e, w')
      | (Inr None, w') \<Rightarrow> (Inl (TypeError ''unsupported operand type: NoneType''), w')
      | (Inr (Some v), w') \<Rightarrow>
          (case num_val v of
             Finite r \<Rightarrow> (Inr \<lparr>opt_fun = r, opt_x = x0\<rparr>, w')
           | PlusInf \<Rightarrow> (Inl (ValueError ''the objective is infinite''), w')
           | MinusInf \<Rightarrow> (Inl (ValueError ''the objective is infinite''), w')))"

section \<open>Lemmas about the model\<close>

subsection \<open>Normalising the Pauli string\<close>

lemma upper_char_identity [simp]: "upper_char (CHR ''I'') = CHR ''I''"
  by (simp add: upper_char_def)

lemma not_isspace_identity [simp]: "\<not> isspace (CHR ''I'')"
  by (simp add: isspace_def)

lemma normalise_identity: "strip (upper (replicate n (CHR ''I''))) = replicate n (CHR ''I'')"
proof -
  have "dropWhile isspace (replicate n (CHR ''I'')) = replicate n (CHR ''I'')"
    by (cases n) simp_all
  then show ?thesis by (simp add: strip_def upper_def)
qed

subsection \<open>The heap\<close>

lemma append_instr_jobs [simp]: "jobs (append_instr t g w) = jobs w"
  by (simp add: append_instr_def)

lemma append_instr_length [simp]: "length (heap (append_instr t g w)) = length (heap w)"
  by (simp add: append_instr_def)

lemma append_instr_other [simp]: "a \<noteq> t \<Longrightarrow> heap (append_instr t g w) ! a = heap w ! a"
  by (simp add: append_instr_def)

lemma copy_read: "c < length (heap w) \<Longrightarrow> (heap w @ [x]) ! c = heap w ! c"
  by (simp add: nth_append)

subsection \<open>The measurement loop\<close>

text \<open>The loop writes to the object \<open>temp\<close> only, and submits no job.\<close>

lemma measure_loop_frame:
  "measure_loop temp qreg creg q p ident w = (r, w') \<Longrightarrow>
     jobs w' = jobs w \<and> length (heap w') = length (heap w)
     \<and> (\<forall>a. a \<noteq> temp \<longrightarrow> heap w' ! a = heap w ! a)"
proof (induction p arbitrary: q ident w)
  case Nil
  then show ?case by simp
next
  case (Cons pauli rest)
  then show ?case
    by (fastforce simp: reg_index_def Let_def split: if_splits)
qed

lemma measure_loop_identity:
  "measure_loop temp qreg creg q (replicate n (CHR ''I'')) ident w
     = (Inr (ident @ replicate n 1), w)"
  by (induction n arbitrary: q ident) (simp_all add: replicate_app_Cons_same)

lemma measure_loop_invalid:
  "q + length p \<le> reg_size qreg \<Longrightarrow> q + length p \<le> reg_size creg \<Longrightarrow>
   find (\<lambda>x. x \<notin> set ''IXYZ'') p = Some bad \<Longrightarrow>
   fst (measure_loop temp qreg creg q p ident w)
     = Inl (ValueError (bad # '' is an invalid Pauli string key. Should be I, X, Y, or Z.''))"
proof (induction p arbitrary: q ident w)
  case Nil
  then show ?case by simp
next
  case (Cons pauli rest)
  then show ?case
    by (auto simp: reg_index_def Let_def split: if_splits)
qed

lemma measure_loop_valid:
  "q + length p \<le> reg_size qreg \<Longrightarrow> q + length p \<le> reg_size creg \<Longrightarrow>
   set p \<subseteq> set ''IXYZ'' \<Longrightarrow>
   \<exists>ident' w'. measure_loop temp qreg creg q p ident w = (Inr ident', w')"
proof (induction p arbitrary: q ident w)
  case Nil
  then show ?case by simp
next
  case (Cons pauli rest)
  then show ?case
    by (auto simp: reg_index_def Let_def split: if_splits)
qed

subsection \<open>Rounding to a double\<close>

lemma pow2_pos [simp]: "0 < pow2 e"
  by (simp add: pow2_def)

lemma round_half_even_bounds: "\<lfloor>y\<rfloor> \<le> round_half_even y \<and> round_half_even y \<le> \<lceil>y\<rceil>"
  by (auto simp: round_half_even_def Let_def ceiling_altdef)

lemma round_half_even_of_int [simp]: "round_half_even (real_of_int n) = n"
  by (simp add: round_half_even_def)

lemma bitlen_one [simp]: "bitlen 1 = 1"
  by (simp add: bitlen_alt_def)

lemma binade_le_zero: "\<bar>x\<bar> \<le> 1 \<Longrightarrow> binade x \<le> 0"
  by (auto simp: binade_def bitlen_nonneg)

text \<open>Rounding does not leave the interval from -1 to 1.\<close>

lemma round_double_unit:
  assumes "\<bar>x\<bar> \<le> 1"
  shows "\<bar>round_double x\<bar> \<le> 1"
proof (cases "x = 0")
  case True
  then show ?thesis by (simp add: round_double_def)
next
  case False
  define e where "e = max (binade x) (- 1022) - 52"
  define m :: int where "m = 2 ^ nat (- e)"
  have "e < 0"
    using binade_le_zero [OF assms] by (simp add: e_def)
  then have q: "pow2 e = 1 / real_of_int m"
    by (simp add: pow2_def m_def)
  have mpos: "0 < real_of_int m"
    by (simp add: m_def)
  define y where "y = x * real_of_int m"
  have y: "x / pow2 e = y"
    by (simp add: q y_def)
  have "\<bar>y\<bar> = \<bar>x\<bar> * real_of_int m"
    using mpos by (simp add: y_def abs_mult)
  also have "\<dots> \<le> 1 * real_of_int m"
    using assms mpos by (intro mult_right_mono) simp_all
  finally have "\<bar>y\<bar> \<le> real_of_int m"
    by simp
  then have "real_of_int (- m) \<le> y" and "y \<le> real_of_int m"
    by (simp_all add: abs_le_iff)
  then have "- m \<le> \<lfloor>y\<rfloor>" and "\<lceil>y\<rceil> \<le> m"
    by (simp_all only: le_floor_iff ceiling_le_iff)
  then have "- m \<le> round_half_even y" and "round_half_even y \<le> m"
    using round_half_even_bounds [of y] by linarith+
  then have "\<bar>real_of_int (round_half_even y)\<bar> \<le> real_of_int m"
    by linarith
  then have "\<bar>real_of_int (round_half_even y)\<bar> / real_of_int m \<le> 1"
    using mpos by (simp only: divide_le_eq_1_pos)
  then have "\<bar>real_of_int (round_half_even y) * (1 / real_of_int m)\<bar> \<le> 1"
    using mpos by (simp add: abs_mult)
  then show ?thesis
    using False y q unfolding round_double_def e_def Let_def by simp
qed

lemma binade_of_int:
  assumes "n \<noteq> 0"
  shows "binade (real_of_int n) = bitlen \<bar>n\<bar> - 1"
proof -
  have "1 \<le> \<bar>n\<bar>" using assms by linarith
  then have "1 \<le> real_of_int \<bar>n\<bar>" by (simp only: of_int_1_le_iff)
  then have "1 \<le> \<bar>real_of_int n\<bar>" by (simp only: of_int_abs)
  moreover have "\<lfloor>\<bar>real_of_int n\<bar>\<rfloor> = \<bar>n\<bar>"
    by (simp flip: of_int_abs)
  ultimately show ?thesis
    by (simp only: binade_def if_True)
qed

text \<open>An integer of magnitude at most \<open>2^53\<close> is a double.\<close>

lemma round_double_of_int:
  assumes "\<bar>n\<bar> \<le> 2 ^ 53"
  shows "round_double (real_of_int n) = real_of_int n"
proof (cases "n = 0")
  case True
  then show ?thesis by (simp add: round_double_def)
next
  case False
  define b where "b = bitlen \<bar>n\<bar> - 1"
  have pos: "0 < \<bar>n\<bar>" using False by simp
  have bin: "binade (real_of_int n) = b"
    using binade_of_int [OF False] by (simp only: b_def)
  have lo: "2 ^ nat b \<le> \<bar>n\<bar>"
    using bitlen_bounds [OF pos] by (simp only: b_def)
  have b0: "0 \<le> b"
    using pos by (simp add: b_def bitlen_alt_def)
  have "(2::int) ^ nat b \<le> 2 ^ 53"
    using lo assms by (rule order_trans)
  then have "nat b \<le> 53"
    by (rule power_le_imp_le_exp [rotated]) simp
  then have b53: "b \<le> 53"
    using b0 by linarith
  have nz: "real_of_int n \<noteq> 0" using False by simp
  show ?thesis
  proof (cases "b \<le> 52")
    case True
    define m :: int where "m = 2 ^ nat (52 - b)"
    have mpos: "0 < real_of_int m" by (simp add: m_def)
    have q: "pow2 (max b (- 1022) - 52) = 1 / real_of_int m"
      using True b0 by (auto simp: pow2_def m_def max_def)
    have "real_of_int n / (1 / real_of_int m) = real_of_int (n * m)"
      by simp
    then have "round_half_even (real_of_int n / (1 / real_of_int m)) = n * m"
      by (simp only: round_half_even_of_int)
    moreover have "real_of_int (n * m) * (1 / real_of_int m) = real_of_int n"
      using mpos by simp
    ultimately show ?thesis
      using nz bin q unfolding round_double_def Let_def by simp
  next
    case False
    then have b: "b = 53" using b53 by simp
    have "(2::int) ^ 53 \<le> \<bar>n\<bar>"
      using lo by (simp only: b) simp
    then have "\<bar>n\<bar> = 2 ^ 53"
      using assms by (rule order_antisym [rotated])
    then obtain h :: int where h: "n = 2 * h"
      by (cases "0 \<le> n") (auto intro: that [of "2 ^ 52"] that [of "- (2 ^ 52)"])
    have q: "pow2 (max b (- 1022) - 52) = 2"
      by (simp add: b pow2_def)
    have "real_of_int n / 2 = real_of_int h"
      by (simp add: h)
    then have "round_half_even (real_of_int n / 2) = h"
      by (simp only: round_half_even_of_int)
    moreover have "real_of_int h * 2 = real_of_int n"
      by (simp add: h)
    ultimately show ?thesis
      using nz bin q unfolding round_double_def Let_def by simp
  qed
qed

lemma small_int_in_range:
  assumes "\<bar>n\<bar> \<le> 2 ^ 53"
  shows "\<bar>real_of_int n\<bar> < 2 ^ 1024"
proof -
  have "real_of_int \<bar>n\<bar> \<le> real_of_int (2 ^ 53)"
    using assms by (simp only: of_int_le_iff)
  then have "\<bar>real_of_int n\<bar> \<le> 2 ^ 53"
    by simp
  also have "(2::real) ^ 53 < 2 ^ 1024"
    by (rule power_strict_increasing) simp_all
  finally show ?thesis .
qed

lemma double_of_int_exact:
  assumes "\<bar>n\<bar> \<le> 2 ^ 53"
  shows "double_of_int n = Inr (real_of_int n)"
  using small_int_in_range [OF assms] round_double_of_int [OF assms]
  by (simp add: double_of_int_def Let_def del: of_int_abs)

lemma double_result_of_int:
  assumes "\<bar>n\<bar> \<le> 2 ^ 53"
  shows "double_result (real_of_int n) = Finite (real_of_int n)"
  using small_int_in_range [OF assms] round_double_of_int [OF assms]
  by (simp add: double_result_def Let_def abs_less_iff del: of_int_abs)

lemma double_result_unit:
  assumes "\<bar>x\<bar> \<le> 1"
  shows "\<exists>r. double_result x = Finite r \<and> - 1 \<le> r \<and> r \<le> 1"
proof -
  have r: "\<bar>round_double x\<bar> \<le> 1"
    using assms by (rule round_double_unit)
  have "(1::real) < 2 ^ 1024"
    by (rule one_less_power) simp_all
  then have "\<not> 2 ^ 1024 \<le> round_double x" and "\<not> round_double x \<le> - (2 ^ 1024)"
    using r by (simp_all only: abs_le_iff) linarith+
  then show ?thesis
    using r by (simp add: double_result_def Let_def abs_le_iff)
qed

text \<open>\<open>binade\<close> is the binary exponent.\<close>

lemma binade_bounds:
  assumes "x \<noteq> 0"
  shows "pow2 (binade x) \<le> \<bar>x\<bar> \<and> \<bar>x\<bar> < pow2 (binade x + 1)"
proof (cases "1 \<le> \<bar>x\<bar>")
  case True
  define n where "n = \<lfloor>\<bar>x\<bar>\<rfloor>"
  have n1: "1 \<le> n"
    using True by (simp add: n_def le_floor_iff)
  then have npos: "0 < n" by simp
  have b0: "0 \<le> bitlen n - 1"
    using npos by (simp add: bitlen_alt_def)
  have bin: "binade x = bitlen n - 1"
    using True by (simp add: binade_def n_def)
  have "2 ^ nat (bitlen n - 1) \<le> n" and hi: "n < 2 ^ nat (bitlen n)"
    using bitlen_bounds [OF npos] by simp_all
  then have "real_of_int (2 ^ nat (bitlen n - 1)) \<le> real_of_int n"
    by (simp only: of_int_le_iff)
  moreover have "real_of_int n \<le> \<bar>x\<bar>"
    by (simp add: n_def)
  moreover have "real_of_int (2 ^ nat (bitlen n - 1)) = 2 ^ nat (bitlen n - 1)"
    by simp
  ultimately have "2 ^ nat (bitlen n - 1) \<le> \<bar>x\<bar>"
    by linarith
  then have lower: "pow2 (binade x) \<le> \<bar>x\<bar>"
    using b0 by (simp add: bin pow2_def)
  have "n + 1 \<le> 2 ^ nat (bitlen n)"
    using hi by simp
  then have "real_of_int (n + 1) \<le> real_of_int (2 ^ nat (bitlen n))"
    by (simp only: of_int_le_iff)
  moreover have "\<bar>x\<bar> < real_of_int (n + 1)"
    by (simp add: n_def)
  moreover have "real_of_int (2 ^ nat (bitlen n)) = 2 ^ nat (bitlen n)"
    by simp
  ultimately have "\<bar>x\<bar> < 2 ^ nat (bitlen n)"
    by linarith
  then have "\<bar>x\<bar> < pow2 (binade x + 1)"
    using b0 by (simp add: bin pow2_def)
  with lower show ?thesis ..
next
  case False
  define y where "y = 1 / \<bar>x\<bar>"
  define m where "m = \<lceil>y\<rceil> - 1"
  define k where "k = bitlen m"
  have xpos: "0 < \<bar>x\<bar>" using assms by simp
  have y1: "1 < y"
    using False xpos by (simp add: y_def)
  then have "1 < \<lceil>y\<rceil>"
    by (simp add: less_ceiling_iff)
  then have mpos: "0 < m"
    by (simp add: m_def)
  have my: "real_of_int m < y" and ym: "y \<le> real_of_int (m + 1)"
    by (simp_all add: m_def) linarith+
  have bin: "binade x = - k"
    using False by (simp add: binade_def k_def m_def y_def)
  have k1: "1 \<le> k"
    using mpos by (simp add: k_def bitlen_alt_def)
  have "2 ^ nat (k - 1) \<le> m" and hi: "m < 2 ^ nat k"
    using bitlen_bounds [OF mpos] by (simp_all add: k_def)
  then have "real_of_int (2 ^ nat (k - 1)) \<le> real_of_int m"
    by (simp only: of_int_le_iff)
  moreover have "real_of_int (2 ^ nat (k - 1)) = 2 ^ nat (k - 1)"
    by simp
  ultimately have low: "2 ^ nat (k - 1) < y"
    using my by linarith
  have "m + 1 \<le> 2 ^ nat k"
    using hi by simp
  then have "real_of_int (m + 1) \<le> real_of_int (2 ^ nat k)"
    by (simp only: of_int_le_iff)
  moreover have "real_of_int (2 ^ nat k) = 2 ^ nat k"
    by simp
  ultimately have high: "y \<le> 2 ^ nat k"
    using ym by linarith
  have "1 / 2 ^ nat k \<le> 1 / y"
    using high y1 by (intro divide_left_mono) simp_all
  then have lower: "pow2 (binade x) \<le> \<bar>x\<bar>"
    using k1 xpos by (simp add: bin pow2_def y_def)
  have ypos: "0 < y"
    using y1 by simp
  have "1 / y < 1 / 2 ^ nat (k - 1)"
    using low ypos by (intro divide_strict_left_mono) simp_all
  moreover have "pow2 (- k + 1) = 1 / 2 ^ nat (k - 1)"
    using k1 by (cases "k = 1") (simp_all add: pow2_def)
  ultimately have "\<bar>x\<bar> < pow2 (binade x + 1)"
    using xpos by (simp add: bin y_def)
  with lower show ?thesis ..
qed

lemma double_result_Ints:
  assumes "x \<in> \<int>" and "\<bar>x\<bar> \<le> 2 ^ 53"
  shows "double_result x = Finite x"
proof -
  from assms(1) obtain n where x: "x = real_of_int n"
    by (auto elim: Ints_cases)
  have "real_of_int \<bar>n\<bar> \<le> real_of_int (2 ^ 53)"
    using assms(2) by (simp add: x)
  then have "\<bar>n\<bar> \<le> 2 ^ 53"
    by (simp only: of_int_le_iff)
  then show ?thesis
    unfolding x by (rule double_result_of_int)
qed

subsection \<open>The postprocessing loop\<close>

lemma sign_abs [simp]: "\<bar>sign b\<bar> = 1"
  by (simp add: sign_def power_abs)

lemma signed_count_abs: "0 \<le> n \<Longrightarrow> \<bar>sign b * n\<bar> = n"
  by (simp add: abs_mult)

text \<open>
  While the counts are non-negative and stay below \<open>2^53\<close> in sum, every conversion and
  every addition of the loop is exact.
\<close>

lemma postprocess_exact:
  assumes "list_all (\<lambda>(b, n). 0 \<le> n) cs"
      and "\<bar>i\<bar> + sum_list (map snd cs) \<le> 2 ^ 53"
  shows "\<exists>j. postprocess cs (Finite (real_of_int i)) = Inr (Finite (real_of_int j))
             \<and> \<bar>j\<bar> \<le> \<bar>i\<bar> + sum_list (map snd cs)"
  using assms
proof (induction cs arbitrary: i)
  case Nil
  then show ?case by simp
next
  case (Cons bc cs)
  obtain b n where bc: "bc = (b, n)" by (cases bc)
  from Cons.prems(1) bc have n: "0 \<le> n" and rest: "list_all (\<lambda>(b, n). 0 \<le> n) cs"
    by simp_all
  have sum0: "0 \<le> sum_list (map snd cs)"
    using rest by (induction cs) auto
  have total: "\<bar>i\<bar> + n + sum_list (map snd cs) \<le> 2 ^ 53"
    using Cons.prems(2) bc by simp
  have mag: "\<bar>sign b * n\<bar> = n"
    using n by (rule signed_count_abs)
  have "\<bar>sign b * n\<bar> \<le> 2 ^ 53"
    using mag total sum0 by linarith
  then have conv: "double_of_int (sign b * n) = Inr (real_of_int (sign b * n))"
    by (rule double_of_int_exact)
  define i' where "i' = i + sign b * n"
  have i': "\<bar>i'\<bar> \<le> \<bar>i\<bar> + n"
    using mag unfolding i'_def by linarith
  then have "\<bar>i'\<bar> \<le> 2 ^ 53"
    using total sum0 by linarith
  then have "double_result (real_of_int i') = Finite (real_of_int i')"
    by (rule double_result_of_int)
  then have add: "double_add (Finite (real_of_int i)) (real_of_int (sign b * n))
                    = Finite (real_of_int i')"
    by (simp add: i'_def)
  have "\<bar>i'\<bar> + sum_list (map snd cs) \<le> 2 ^ 53"
    using i' total by linarith
  from Cons.IH [OF rest this] obtain j
    where j: "postprocess cs (Finite (real_of_int i')) = Inr (Finite (real_of_int j))"
      and jb: "\<bar>j\<bar> \<le> \<bar>i'\<bar> + sum_list (map snd cs)"
    by blast
  have "postprocess (bc # cs) (Finite (real_of_int i)) = Inr (Finite (real_of_int j))"
    using j by (simp only: bc postprocess.simps conv add sum.case)
  moreover have "\<bar>j\<bar> \<le> \<bar>i\<bar> + sum_list (map snd (bc # cs))"
    using jb i' bc by simp
  ultimately show ?case by blast
qed

text \<open>
  So, with valid counts and at most \<open>2^53\<close> shots, the estimate is a finite double
  between -1 and 1.
\<close>

lemma estimate_range:
  assumes "valid_counts cs shots" and "0 < shots" and "shots \<le> 2 ^ 53"
  shows "\<exists>val r. postprocess cs (Finite 0) = Inr val
           \<and> double_of_int shots = Inr (real_of_int shots)
           \<and> double_div val (real_of_int shots) = Finite r \<and> - 1 \<le> r \<and> r \<le> 1"
proof -
  have nonneg: "list_all (\<lambda>(b, n). 0 \<le> n) cs" and total: "sum_list (map snd cs) = shots"
    using assms(1) by (simp_all add: valid_counts_def)
  have "\<bar>0::int\<bar> + sum_list (map snd cs) \<le> 2 ^ 53"
    using total assms(3) by simp
  from postprocess_exact [OF nonneg this] obtain j
    where j: "postprocess cs (Finite 0) = Inr (Finite (real_of_int j))" and jb: "\<bar>j\<bar> \<le> shots"
    using total by auto
  have "\<bar>shots\<bar> \<le> 2 ^ 53"
    using assms(2,3) by simp
  then have conv: "double_of_int shots = Inr (real_of_int shots)"
    by (rule double_of_int_exact)
  have "\<bar>real_of_int j\<bar> \<le> real_of_int shots"
    using jb by linarith
  then have "\<bar>real_of_int j / real_of_int shots\<bar> \<le> 1"
    using assms(2) by (simp add: divide_le_eq)
  from double_result_unit [OF this] obtain r
    where "double_result (real_of_int j / real_of_int shots) = Finite r"
      and "- 1 \<le> r" and "r \<le> 1"
    by blast
  then have "double_div (Finite (real_of_int j)) (real_of_int shots) = Finite r
               \<and> - 1 \<le> r \<and> r \<le> 1"
    by simp
  with j conv show ?thesis by blast
qed

subsection \<open>Objects allocated before the call\<close>

lemma expectation_frame:
  assumes "a < length (heap w)"
  shows "heap (snd (expectation backend c s shots w)) ! a = heap w ! a"
proof -
  let ?w1 = "w\<lparr>heap := heap w @ [heap w ! c]\<rparr>"
  have a1: "heap ?w1 ! a = heap w ! a"
    using assms by (simp add: nth_append)
  have ne: "a \<noteq> length (heap w)"
    using assms by simp
  have loop: "heap w2 ! a = heap w ! a"
    if "measure_loop (length (heap w)) qreg creg 0 p [] ?w1 = (r, w2)" for qreg creg p r w2
    using measure_loop_frame [OF that] ne a1 by simp
  show ?thesis
    using a1
    by (auto simp: expectation_def circuit_copy_def Let_def split: prod.splits sum.splits
             dest: loop)
qed

subsection \<open>Evaluating the estimator on small counts\<close>

lemmas expectation_eval =
  expectation_def circuit_copy_def upper_def upper_char_def strip_def isspace_def
  reg_index_def append_instr_def py_all_def sign_def Let_def fixed_backend_def
  double_of_int_exact double_result_Ints

section \<open>The cost function\<close>

text \<open>
  Claim C1: for lists of equal length, \<open>cost\<close> returns the sum over \<open>i\<close> of
  \<open>weights[i]\<close> times \<open>expectation(circuit, paulis[i])\<close>. The body of \<open>cost\<close> stops
  after the length check. With the single weight 1.0 and the Pauli string II on a
  two-qubit circuit, the one term of the sum is 1, while \<open>cost\<close> returns \<open>None\<close>.
\<close>

theorem cost_returns_none:
  "cost 0 [1] [''II''] two_qubit_world = (Inr None, two_qubit_world)
   \<and> fst (expectation (fixed_backend []) 0 ''II'' 10000 two_qubit_world) = Inr (PyInt 1)"
  by (simp add: cost_def expectation_def two_qubit_world_def circuit_copy_def upper_def
        upper_char_def strip_def isspace_def py_all_def Let_def)

text \<open>
  Claim C7: when the list of weights and the list of Pauli strings differ in length,
  \<open>cost\<close> raises its length-mismatch error; the state is returned as it was, so no
  circuit has been copied and no job submitted.
\<close>

theorem cost_length_mismatch:
  assumes "length weights \<noteq> length paulis"
  shows "cost circuit weights paulis w
           = (Inl (ValueError ''Args weights and paulis must have the same length.''), w)"
  using assms by (simp add: cost_def)

theorem cost_length_mismatch_witness:
  "cost 0 [1, 2, 3] [''ZI'', ''IZ''] two_qubit_world
     = (Inl (ValueError ''Args weights and paulis must have the same length.''),
        two_qubit_world)"
  using cost_length_mismatch [of "[1, 2, 3]" "[''ZI'', ''IZ'']" 0 two_qubit_world]
  by simp

section \<open>The objective function\<close>

text \<open>
  Claim C2: \<open>obj(theta)\<close> is the cost of the ansatz prepared with that same \<open>theta\<close>.
  The function \<open>obj\<close> of the single-radius cell builds \<open>VQE_circuit(0)\<close> whatever
  \<open>theta\<close> is: at \<open>theta = 0.4\<close> the state it leaves is the one with the ansatz for
  angle 0 allocated, which is not the one with the ansatz for angle 0.4. (The objective
  of the sweep, \<open>sweep_obj\<close>, passes \<open>theta\<close> on.)
\<close>

theorem obj_builds_ansatz_for_zero:
  "snd (obj weights H2_paulis (2 / 5) empty_world) = snd (VQE_circuit 0 empty_world)
   \<and> snd (VQE_circuit 0 empty_world) \<noteq> snd (VQE_circuit (2 / 5) empty_world)"
  by (simp add: obj_def cost_def VQE_circuit_def QuantumCircuit_def append_instr_def
        empty_world_def Let_def)

section \<open>The expectation estimator\<close>

text \<open>
  Claim C3: the estimate is the average over the shots of signs, the sign of an outcome
  being the parity of its bits at the measured positions, so that bits at identity
  positions play no role. The code's sign is \<open>(-1)\<close> to the number of characters 0 in
  the whole bitstring. On one qubit in state 0, measured in Z, every shot reads 0: the
  code returns -1, the parity average is 1. With the measured bit 0 in both cases, the
  code returns 1 for ZI on two qubits and -1 for ZII on three: each unmeasured bit,
  read as 0, flips the sign.
\<close>

theorem expectation_counts_zero_bits:
  "fst (expectation (fixed_backend [(''0'', 10000)]) 0 ''Z'' 10000 one_qubit_world)
     = Inr (PyFloat (Finite (- 1)))
   \<and> parity_average ''Z'' [(''0'', 10000)] 10000 = 1
   \<and> fst (expectation (fixed_backend [(''00'', 10000)]) 0 ''ZI'' 10000 two_qubit_world)
       = Inr (PyFloat (Finite 1))
   \<and> fst (expectation (fixed_backend [(''000'', 10000)]) 0 ''ZII'' 10000 three_qubit_world)
       = Inr (PyFloat (Finite (- 1)))
   \<and> parity_average ''ZII'' [(''000'', 10000)] 10000 = 1"
  by (simp add: expectation_eval one_qubit_world_def two_qubit_world_def
        three_qubit_world_def parity_average_def parity_sign_def measured_ones_def)

text \<open>
  Claim C4: on a circuit with one quantum and one classical register, the all-identity
  Pauli string of the circuit's qubit count makes \<open>expectation\<close> return 1 (the integer
  1, equal to 1.0). The state it leaves is the initial one with the copy added: the
  list of submitted jobs is unchanged, whatever the backend.
\<close>

theorem expectation_all_identity:
  assumes "c < length (heap w)"
      and "length (qregs (heap w ! c)) = 1"
      and "length (cregs (heap w ! c)) = 1"
  shows "expectation backend c (replicate (reg_size (qregs (heap w ! c) ! 0)) (CHR ''I'')) shots w
           = (Inr (PyInt 1), w\<lparr>heap := heap w @ [heap w ! c]\<rparr>)
         \<and> num_val (PyInt 1) = Finite 1
         \<and> jobs (snd (expectation backend c
                  (replicate (reg_size (qregs (heap w ! c) ! 0)) (CHR ''I'')) shots w)) = jobs w"
proof -
  have "expectation backend c (replicate (reg_size (qregs (heap w ! c) ! 0)) (CHR ''I'')) shots w
           = (Inr (PyInt 1), w\<lparr>heap := heap w @ [heap w ! c]\<rparr>)"
    using assms
    by (simp add: expectation_def circuit_copy_def Let_def copy_read normalise_identity
          measure_loop_identity py_all_def list_all_iff)
  then show ?thesis by simp
qed

theorem expectation_all_identity_witness:
  "expectation (fixed_backend []) 0 ''II'' 10000 two_qubit_world
     = (Inr (PyInt 1), two_qubit_world\<lparr>heap := heap two_qubit_world @ [heap two_qubit_world ! 0]\<rparr>)"
  using expectation_all_identity [of 0 two_qubit_world "fixed_backend []" 10000]
  by (simp add: two_qubit_world_def numeral_2_eq_2)

text \<open>
  Claim C5, as stated: every Pauli string of matching length with a character outside
  I, X, Y, Z raises the invalid-symbol error. The string is upper-cased first: on a
  two-qubit circuit \<open>xz\<close> has the matching length and the character \<open>x\<close>, and is
  measured as XZ.
\<close>

theorem expectation_invalid_symbol_counterexample:
  "length ''xz'' = reg_size (qregs (heap two_qubit_world ! 0) ! 0)
   \<and> CHR ''x'' \<in> set ''xz'' \<and> CHR ''x'' \<notin> set ''IXYZ''
   \<and> fst (expectation (fixed_backend [(''00'', 100)]) 0 ''xz'' 100 two_qubit_world)
       = Inr (PyFloat (Finite 1))"
  by (simp add: expectation_eval two_qubit_world_def)

text \<open>
  Claim C5, amended: on a circuit with one quantum register and one classical register
  that is at least as large, a Pauli string which, upper-cased and stripped of surrounding
  whitespace, has the qubit count as its length and a character outside I, X, Y, Z, raises
  the invalid-symbol error for the first such character.
\<close>

theorem expectation_invalid_symbol:
  assumes "c < length (heap w)"
      and "length (qregs (heap w ! c)) = 1"
      and "length (cregs (heap w ! c)) = 1"
      and "reg_size (qregs (heap w ! c) ! 0) \<le> reg_size (cregs (heap w ! c) ! 0)"
      and "length (strip (upper s)) = reg_size (qregs (heap w ! c) ! 0)"
      and "find (\<lambda>x. x \<notin> set ''IXYZ'') (strip (upper s)) = Some bad"
  shows "fst (expectation backend c s shots w)
           = Inl (ValueError (bad # '' is an invalid Pauli string key. Should be I, X, Y, or Z.''))"
proof -
  let ?circ = "heap w ! c"
  let ?w1 = "w\<lparr>heap := heap w @ [?circ]\<rparr>"
  have "fst (measure_loop (length (heap w)) (qregs ?circ ! 0) (cregs ?circ ! 0) 0
               (strip (upper s)) [] ?w1)
          = Inl (ValueError (bad # '' is an invalid Pauli string key. Should be I, X, Y, or Z.''))"
    using assms(4,5,6) by (intro measure_loop_invalid) simp_all
  then show ?thesis
    using assms(1,2,3,5)
    by (auto simp: expectation_def circuit_copy_def Let_def copy_read
             split: prod.splits sum.splits)
qed

theorem expectation_invalid_symbol_witness:
  "fst (expectation (fixed_backend []) 0 ''XQ'' 10000 two_qubit_world)
     = Inl (ValueError ''Q is an invalid Pauli string key. Should be I, X, Y, or Z.'')"
  using expectation_invalid_symbol
          [of 0 two_qubit_world "''XQ''" "CHR ''Q''" "fixed_backend []" 10000]
  by (simp add: two_qubit_world_def upper_def upper_char_def strip_def isspace_def)

text \<open>
  Claim C6, as stated: every Pauli string whose length differs from the qubit count
  raises the length-mismatch error. The string is stripped of surrounding whitespace
  first: on a two-qubit circuit \<open>ZZ\<close> followed by a space has length 3 and is measured
  as ZZ.
\<close>

theorem expectation_length_mismatch_counterexample:
  "length ''ZZ '' \<noteq> reg_size (qregs (heap two_qubit_world ! 0) ! 0)
   \<and> fst (expectation (fixed_backend [(''00'', 100)]) 0 ''ZZ '' 100 two_qubit_world)
       = Inr (PyFloat (Finite 1))"
  by (simp add: expectation_eval two_qubit_world_def)

text \<open>
  Claim C6, amended: on a circuit with one quantum and one classical register, a Pauli
  string whose length, once upper-cased and stripped of surrounding whitespace, differs
  from the qubit count raises the length-mismatch error, which prints both numbers.
\<close>

theorem expectation_length_mismatch:
  assumes "c < length (heap w)"
      and "length (qregs (heap w ! c)) = 1"
      and "length (cregs (heap w ! c)) = 1"
      and "length (strip (upper s)) \<noteq> reg_size (qregs (heap w ! c) ! 0)"
  shows "fst (expectation backend c s shots w)
           = Inl (ValueError (''Circuit has '' @ str_nat (reg_size (qregs (heap w ! c) ! 0))
                    @ '' qubits but pauli_string has '' @ str_nat (length (strip (upper s)))
                    @ '' operators.''))"
  using assms
  by (simp add: expectation_def circuit_copy_def Let_def copy_read)

theorem expectation_length_mismatch_witness:
  "fst (expectation (fixed_backend []) 0 ''ZZZ'' 10000 two_qubit_world)
     = Inl (ValueError ''Circuit has 2 qubits but pauli_string has 3 operators.'')"
  using expectation_length_mismatch [of 0 two_qubit_world "''ZZZ''" "fixed_backend []" 10000]
  by (simp add: two_qubit_world_def upper_def upper_char_def strip_def isspace_def
        str_nat.simps)

text \<open>
  Claim C9, as stated: with a positive shot count and counts that are non-negative and
  sum to the shot count, the value returned lies between -1 and 1. The estimate is
  computed in double precision, and beyond \<open>2^53\<close> the counts are no longer exact: with
  \<open>2^54\<close> shots reading 11 and \<open>2^54 + 11\<close> reading 00, measured in ZZ, the accumulated
  value is rounded up to \<open>2^55 + 16\<close>, the shot count \<open>2^55 + 11\<close> is rounded down to
  \<open>2^55 + 8\<close>, and the quotient is the double next above 1.
\<close>

theorem expectation_in_unit_interval_counterexample:
  "valid_counts [(''11'', 2 ^ 54), (''00'', 2 ^ 54 + 11)] (2 ^ 55 + 11)
   \<and> (0::int) < 2 ^ 55 + 11
   \<and> fst (expectation (fixed_backend [(''11'', 2 ^ 54), (''00'', 2 ^ 54 + 11)]) 0 ''ZZ''
             (2 ^ 55 + 11) two_qubit_world)
       = Inr (PyFloat (Finite (1 + 1 / 2 ^ 52)))
   \<and> \<not> in_unit_interval (PyFloat (Finite (1 + 1 / 2 ^ 52)))"
  by (simp add: valid_counts_def in_unit_interval_def two_qubit_world_def
        expectation_def circuit_copy_def upper_def upper_char_def strip_def isspace_def
        reg_index_def append_instr_def py_all_def sign_def fixed_backend_def
        double_of_int_def double_result_def round_double_def binade_def pow2_def
        round_half_even_def compute_bitlen Let_def)

text \<open>
  Claim C9, amended: with a positive shot count of at most \<open>2^53\<close> and a backend whose
  counts are non-negative and sum to the shot count, every value that \<open>expectation\<close>
  returns lies between -1 and 1. And it does return a value when the circuit has one
  quantum register and one classical register at least as large, the normalised Pauli
  string has the qubit count as its length and only the symbols I, X, Y, Z, and the
  backend answers. In the example, 60 shots read 00 and 40 read 01: the value returned
  is the double nearest to 0.2.
\<close>

theorem expectation_in_unit_interval:
  assumes counts: "\<And>circ cs. backend circ shots = Inr cs \<Longrightarrow> valid_counts cs shots"
      and shots: "0 < shots"
      and bound: "shots \<le> 2 ^ 53"
  shows "(\<forall>v. fst (expectation backend c s shots w) = Inr v \<longrightarrow> in_unit_interval v)
       \<and> (c < length (heap w)
            \<and> length (qregs (heap w ! c)) = 1 \<and> length (cregs (heap w ! c)) = 1
            \<and> reg_size (qregs (heap w ! c) ! 0) \<le> reg_size (cregs (heap w ! c) ! 0)
            \<and> length (strip (upper s)) = reg_size (qregs (heap w ! c) ! 0)
            \<and> set (strip (upper s)) \<subseteq> set ''IXYZ''
            \<and> (\<forall>circ. \<exists>cs. backend circ shots = Inr cs)
          \<longrightarrow> (\<exists>v. fst (expectation backend c s shots w) = Inr v))"
proof (intro conjI allI impI)
  fix v
  assume v: "fst (expectation backend c s shots w) = Inr v"
  have est: "\<exists>val r. postprocess cs (Finite 0) = Inr val
               \<and> double_of_int shots = Inr (real_of_int shots)
               \<and> double_div val (real_of_int shots) = Finite r \<and> - 1 \<le> r \<and> r \<le> 1"
    if "backend circ shots = Inr cs" for circ cs
    using estimate_range [OF counts [OF that] shots bound] .
  show "in_unit_interval v"
    using v shots
    by (auto simp: expectation_def circuit_copy_def Let_def in_unit_interval_def
             split: prod.splits sum.splits if_splits dest!: est)
next
  let ?circ = "heap w ! c"
  let ?w1 = "w\<lparr>heap := heap w @ [?circ]\<rparr>"
  assume wf: "c < length (heap w)
            \<and> length (qregs (heap w ! c)) = 1 \<and> length (cregs (heap w ! c)) = 1
            \<and> reg_size (qregs (heap w ! c) ! 0) \<le> reg_size (cregs (heap w ! c) ! 0)
            \<and> length (strip (upper s)) = reg_size (qregs (heap w ! c) ! 0)
            \<and> set (strip (upper s)) \<subseteq> set ''IXYZ''
            \<and> (\<forall>circ. \<exists>cs. backend circ shots = Inr cs)"
  then obtain ident' w2 where loop:
    "measure_loop (length (heap w)) (qregs ?circ ! 0) (cregs ?circ ! 0) 0
       (strip (upper s)) [] ?w1 = (Inr ident', w2)"
    using measure_loop_valid [of 0 "strip (upper s)" "qregs ?circ ! 0" "cregs ?circ ! 0"
             "length (heap w)" "[]" ?w1]
    by auto
  obtain cs where cs: "backend (heap w2 ! length (heap w)) shots = Inr cs"
    using wf by blast
  from estimate_range [OF counts [OF cs] shots bound] obtain val r
    where "postprocess cs (Finite 0) = Inr val"
      and "double_of_int shots = Inr (real_of_int shots)"
      and "double_div val (real_of_int shots) = Finite r"
    by blast
  then show "\<exists>v. fst (expectation backend c s shots w) = Inr v"
    using wf loop shots cs
    by (simp add: expectation_def circuit_copy_def Let_def copy_read)
qed

theorem expectation_in_unit_interval_witness:
  "fst (expectation (fixed_backend [(''00'', 60), (''01'', 40)]) 0 ''ZI'' 100 two_qubit_world)
      = Inr (PyFloat (Finite (3602879701896397 / 2 ^ 54)))
   \<and> in_unit_interval (PyFloat (Finite (3602879701896397 / 2 ^ 54)))"
proof -
  have ok: "\<And>circ cs. fixed_backend [(''00'', 60), (''01'', 40)] circ 100 = Inr cs
              \<Longrightarrow> valid_counts cs 100"
    by (auto simp: fixed_backend_def valid_counts_def)
  have val: "fst (expectation (fixed_backend [(''00'', 60), (''01'', 40)]) 0 ''ZI'' 100
                    two_qubit_world) = Inr (PyFloat (Finite (3602879701896397 / 2 ^ 54)))"
    by (simp add: two_qubit_world_def
          expectation_def circuit_copy_def upper_def upper_char_def strip_def isspace_def
          reg_index_def append_instr_def py_all_def sign_def fixed_backend_def
          double_of_int_def double_result_def round_double_def binade_def pow2_def
          round_half_even_def compute_bitlen Let_def)
  show ?thesis
    using expectation_in_unit_interval
            [of "fixed_backend [(''00'', 60), (''01'', 40)]" 100 0 "''ZI''" two_qubit_world,
             OF ok] val
    by simp
qed

text \<open>
  Claim C10: \<open>expectation\<close> leaves the caller's circuit as it was, on every path,
  errors included: the gates and measurements go to the copy. The statement holds for
  whatever the call returns; in the example the copy, allocated at address 1, receives
  five instructions while the circuit at address 0 keeps its empty list.
\<close>

theorem expectation_keeps_circuit:
  assumes "c < length (heap w)"
  shows "heap (snd (expectation backend c s shots w)) ! c = heap w ! c"
  using assms by (rule expectation_frame)

theorem expectation_keeps_circuit_witness:
  "heap (snd (expectation (fixed_backend [(''00'', 100)]) 0 ''XY'' 100 two_qubit_world)) ! 0
     = heap two_qubit_world ! 0
   \<and> data (heap (snd (expectation (fixed_backend [(''00'', 100)]) 0 ''XY'' 100
                      two_qubit_world)) ! 1)
       = [HGate 0, Measure 0 0, SGate 1, HGate 1, Measure 1 1]"
proof -
  have "data (heap (snd (expectation (fixed_backend [(''00'', 100)]) 0 ''XY'' 100
                      two_qubit_world)) ! 1)
       = [HGate 0, Measure 0 0, SGate 1, HGate 1, Measure 1 1]"
    by (simp add: expectation_eval two_qubit_world_def)
  then show ?thesis
    using expectation_keeps_circuit
            [of 0 two_qubit_world "fixed_backend [(''00'', 100)]" "''XY''" 100]
    by (simp add: two_qubit_world_def)
qed

section \<open>The sweep over bond lengths\<close>

text \<open>The objective of the sweep yields a number at no point: \<open>cost\<close> returns none.\<close>

lemma cost_no_number: "fst (cost circuit weights paulis w) \<noteq> Inr (Some v)"
  by (simp add: cost_def)

lemma sweep_obj_no_number: "fst (sweep_obj coeffs H2_paulis r theta w) \<noteq> Inr (Some v)"
  by (simp add: sweep_obj_def cost_no_number split: prod.splits)

lemma probing_minimizer_needs_value: "needs_objective_value probing_minimizer"
  unfolding needs_objective_value_def
proof (intro allI impI)
  fix f :: objective and x0 :: "real list" and meth :: string and w :: world
  assume none: "\<forall>theta w v. fst (f theta w) \<noteq> Inr (Some v)"
  obtain r w' where fw: "f (hd x0) w = (r, w')"
    by (cases "f (hd x0) w")
  have "r \<noteq> Inr (Some v)" for v
    using none fw by (metis fst_conv)
  then show "\<exists>e. fst (probing_minimizer f x0 meth w) = Inl e"
    using fw by (cases r) (auto simp: probing_minimizer_def split: option.splits)
qed

text \<open>
  Claim C8: the sweep yields one minimal energy per radius, in the order of the radii.
  The loop appends \<open>opt.fun\<close> once per radius, but its objective never yields an
  energy, since \<open>cost\<close> returns \<open>None\<close> (claim C1). A minimizer that works from the
  values of its objective then ends the first iteration with an exception, and so does
  the sweep, for every sequence of radii that is not empty: no energy is produced.
\<close>

theorem sweep_raises_without_energy:
  assumes "needs_objective_value minimize" and "radii \<noteq> []"
  shows "\<exists>e. fst (sweep minimize radii coeffs H2_paulis w) = Inl e"
proof -
  from assms(2) have upt: "[0..<length radii] = 0 # [1..<length radii]"
    by (simp add: upt_conv_Cons)
  have "\<forall>theta w v. fst (sweep_obj coeffs H2_paulis 0 theta w) \<noteq> Inr (Some v)"
    by (simp add: sweep_obj_no_number)
  with assms(1) obtain e
    where "fst (minimize (sweep_obj coeffs H2_paulis 0) [0] ''Powell'' w) = Inl e"
    unfolding needs_objective_value_def by blast
  then show ?thesis
    by (cases "minimize (sweep_obj coeffs H2_paulis 0) [0] ''Powell'' w")
       (simp add: sweep_def upt)
qed

theorem sweep_raises_without_energy_witness:
  "fst (sweep probing_minimizer [1 / 5, 3 / 10]
          [[28489 / 10000, 5678 / 10000, - 14508 / 10000, 6799 / 10000, 791 / 10000, 791 / 10000],
           [17252 / 10000, 5215 / 10000, - 11458 / 10000, 6631 / 10000, 806 / 10000, 806 / 10000]]
          [''II'', ''ZI'', ''IZ'', ''ZZ'', ''XX'', ''YY''] empty_world)
     = Inl (TypeError ''unsupported operand type: NoneType'')"
proof -
  have "[0..<2] = [0, Suc 0]"
    by (simp add: upt_rec)
  then have val: "fst (sweep probing_minimizer [1 / 5, 3 / 10]
          [[28489 / 10000, 5678 / 10000, - 14508 / 10000, 6799 / 10000, 791 / 10000, 791 / 10000],
           [17252 / 10000, 5215 / 10000, - 11458 / 10000, 6631 / 10000, 806 / 10000, 806 / 10000]]
          [''II'', ''ZI'', ''IZ'', ''ZZ'', ''XX'', ''YY''] empty_world)
     = Inl (TypeError ''unsupported operand type: NoneType'')"
    by (simp add: sweep_def probing_minimizer_def sweep_obj_def cost_def VQE_circuit_def
          QuantumCircuit_def append_instr_def empty_world_def Let_def)
  show ?thesis
    using sweep_raises_without_energy [OF probing_minimizer_needs_value, of "[1 / 5, 3 / 10]"]
          val
    by simp
qed


end
